theory Spec2Isabelle
  imports Complex_Main
begin

section \<open>Python values, errors and builtins\<close>

text \<open>
  The repository is Python 2 code over numpy arrays of float64. A float is modelled by a
  \<^typ>\<open>real\<close>, a one-dimensional numpy array by a \<^typ>\<open>real list\<close>, a Python int by an
  \<^typ>\<open>int\<close>. Rounding error of the floating point operations is not modelled; every
  concrete input below uses numbers on which the float operations are exact. An
  exception is a value \<open>Inl e\<close> of the result.
\<close>

datatype pyerr =
  AttributeError | TypeError | ValueError | IndexError | ZeroDivisionError |
  OverflowError | UnboundLocalError | NameError

definition and_then :: "pyerr + 'a \<Rightarrow> ('a \<Rightarrow> pyerr + 'b) \<Rightarrow> pyerr + 'b" where
  "and_then m f = (case m of Inl e \<Rightarrow> Inl e | Inr x \<Rightarrow> f x)"

text \<open>\<open>round(x)\<close> of Python 2: to the nearest integer, halves away from zero.\<close>

definition py_round :: "real \<Rightarrow> real" where
  "py_round x = (if 0 \<le> x then of_int \<lfloor>x + 1 / 2\<rfloor> else - of_int \<lfloor>- x + 1 / 2\<rfloor>)"

text \<open>\<open>int(x)\<close>: truncation towards zero.\<close>

definition py_int :: "real \<Rightarrow> int" where
  "py_int x = (if 0 \<le> x then \<lfloor>x\<rfloor> else - \<lfloor>- x\<rfloor>)"

text \<open>
  \<open>x % m\<close> on floats: the remainder has the sign of \<open>m\<close>. The remainder here is exact;
  a float remainder rounded up to \<open>m\<close> itself, the case line 99 of \<open>generate_pcd\<close> guards
  against at the default step, does not arise over the reals.
\<close>

definition py_mod :: "real \<Rightarrow> real \<Rightarrow> real" where
  "py_mod x m = x - m * of_int \<lfloor>x / m\<rfloor>"

text \<open>The builtins \<open>min\<close> and \<open>max\<close> raise ValueError on an empty sequence.\<close>

definition py_min :: "'a::linorder list \<Rightarrow> pyerr + 'a" where
  "py_min xs = (case xs of [] \<Rightarrow> Inl ValueError | x # ys \<Rightarrow> Inr (fold min ys x))"

definition py_max :: "'a::linorder list \<Rightarrow> pyerr + 'a" where
  "py_max xs = (case xs of [] \<Rightarrow> Inl ValueError | x # ys \<Rightarrow> Inr (fold max ys x))"

text \<open>
  Slices \<open>xs[k:]\<close> and \<open>xs[:k]\<close>: a negative bound counts from the end, and a bound
  outside the sequence is clamped to it.
\<close>

definition slice_index :: "nat \<Rightarrow> int \<Rightarrow> nat" where
  "slice_index n k = (if k < 0 then nat (int n + k) else min (nat k) n)"

definition slice_from :: "'a list \<Rightarrow> int \<Rightarrow> 'a list" where
  "slice_from xs k = drop (slice_index (length xs) k) xs"

definition slice_upto :: "'a list \<Rightarrow> int \<Rightarrow> 'a list" where
  "slice_upto xs k = take (slice_index (length xs) k) xs"

definition slice_between :: "'a list \<Rightarrow> int \<Rightarrow> int \<Rightarrow> 'a list" where
  "slice_between xs a b =
     take (slice_index (length xs) b - slice_index (length xs) a)
       (drop (slice_index (length xs) a) xs)"

text \<open>An index into a numpy array: negative indices count from the end.\<close>

definition np_index :: "nat \<Rightarrow> int \<Rightarrow> pyerr + nat" where
  "np_index n i =
     (if 0 \<le> i \<and> i < int n then Inr (nat i)
      else if - int n \<le> i \<and> i < 0 then Inr (nat (int n + i))
      else Inl IndexError)"

text \<open>
  \<open>np.arange(start, stop, step)\<close> on floats: \<open>ceil((stop - start) / step)\<close> elements
  \<open>start + i * step\<close>, none when that number is not positive; a zero step is refused.
\<close>

definition arange :: "real \<Rightarrow> real \<Rightarrow> real \<Rightarrow> pyerr + real list" where
  "arange start stop step =
     (if step = 0 then Inl ValueError
      else Inr (map (\<lambda>i. start + real i * step) [0 ..< nat \<lceil>(stop - start) / step\<rceil>]))"

section \<open>PitchDistribution.py\<close>

text \<open>
  \<open>segmentation\<close> is \<open>'all'\<close> or a list of end points, \<open>overlap\<close> is \<open>'-'\<close> or a number.
\<close>

datatype segment = SegAll | SegBounds "real list"

datatype overlap_tag = NoOverlap | OverlapRatio real

record pitch_distribution =
  bins :: "real list"
  vals :: "real list"
  ref_freq :: real
  kernel_width :: real
  segmentation :: segment
  source :: string
  overlap :: overlap_tag
  step_size :: real

text \<open>
  \<open>__init__\<close>: stores its arguments and derives \<open>step_size\<close> from the first two bins,
  rounded to one decimal. \<open>self.bins[1]\<close> raises IndexError on fewer than two bins.
\<close>

definition PitchDistribution ::
  "real list \<Rightarrow> real list \<Rightarrow> real \<Rightarrow> string \<Rightarrow> real \<Rightarrow> segment \<Rightarrow> overlap_tag
     \<Rightarrow> pyerr + pitch_distribution" where
  "PitchDistribution pd_bins pd_vals kernel_width' source' ref_freq' segment' overlap' =
     (if length pd_bins < 2 then Inl IndexError
      else
        let temp_ss = pd_bins ! 1 - pd_bins ! 0 in
        Inr \<lparr>bins = pd_bins, vals = pd_vals, ref_freq = ref_freq',
             kernel_width = kernel_width', segmentation = segment', source = source',
             overlap = overlap',
             step_size = (if temp_ss = py_round (temp_ss * 10) / 10 then temp_ss
                          else py_round (temp_ss * 10) / 10)\<rparr>)"

text \<open>
  Objects live in a store: an object's identity is its index in the list, and a
  constructor call appends the new object. Arrays are values: the code never updates an
  array in place once another object can see it.
\<close>

type_synonym heap = "pitch_distribution list"

definition alloc :: "heap \<Rightarrow> pitch_distribution \<Rightarrow> heap \<times> nat" where
  "alloc h obj = (h @ [obj], length h)"

definition is_pcd :: "pitch_distribution \<Rightarrow> pyerr + bool" where
  "is_pcd self =
     and_then (py_max (bins self)) (\<lambda>mx.
       if mx = 1200 - step_size self
       then and_then (py_min (bins self)) (\<lambda>mn. Inr (mn = 0))
       else Inr False)"

definition shift :: "heap \<Rightarrow> nat \<Rightarrow> int \<Rightarrow> pyerr + heap \<times> nat" where
  "shift h self shift_idx =
     (let s = h ! self in
      if shift_idx \<noteq> 0 then
        and_then (is_pcd s) (\<lambda>pcd.
          let shifted_vals =
            (if pcd then slice_from (vals s) shift_idx @ slice_upto (vals s) shift_idx
             else if 0 < shift_idx
               then slice_from (vals s) shift_idx @ replicate (nat shift_idx) 0
               else replicate (nat \<bar>shift_idx\<bar>) 0 @ slice_upto (vals s) shift_idx)
          in and_then
               (PitchDistribution (bins s) shifted_vals (kernel_width s) (source s)
                  (ref_freq s) (segmentation s) (overlap s))
               (\<lambda>obj. Inr (alloc h obj)))
      else
        and_then
          (PitchDistribution (bins s) (vals s) (kernel_width s) (source s)
             (ref_freq s) (segmentation s) (overlap s))
          (\<lambda>obj. Inr (alloc h obj)))"

text \<open>
  An object that \<open>__init__\<close> has built: at least two bins, and the step size \<open>__init__\<close>
  derives from them. No code of the repository assigns \<open>bins\<close> or \<open>step_size\<close> afterwards.
\<close>

definition constructed :: "pitch_distribution \<Rightarrow> bool" where
  "constructed pd =
     (2 \<le> length (bins pd) \<and>
      step_size pd =
        (let temp_ss = bins pd ! 1 - bins pd ! 0 in
         if temp_ss = py_round (temp_ss * 10) / 10 then temp_ss
         else py_round (temp_ss * 10) / 10))"

section \<open>ModeFunctions.py\<close>

subsection \<open>The module's global names\<close>

text \<open>
  The top-level statements of the module bind its global names in order: the imports of
  lines 2 to 8, then one \<open>def\<close> per function. A later binding of a name replaces the
  earlier one, and a function body looks a global name up when it runs.
\<close>

datatype binding = Module string | Function string

definition module_bindings :: "(string \<times> binding) list" where
  "module_bindings =
     [(''np'', Module ''numpy''),
      (''math'', Module ''math''),
      (''distance'', Module ''scipy.spatial.distance''),
      (''simps'', Function ''scipy.integrate.simps''),
      (''norm'', Function ''scipy.stats.norm''),
      (''pD'', Module ''PitchDistribution''),
      (''generate_pd'', Function ''generate_pd''),
      (''generate_pcd'', Function ''generate_pcd''),
      (''hz_to_cent'', Function ''hz_to_cent''),
      (''cent_to_hz'', Function ''cent_to_hz''),
      (''generate_distance_matrix'', Function ''generate_distance_matrix''),
      (''distance'', Function ''distance''),
      (''pd_zero_pad'', Function ''pd_zero_pad''),
      (''tonic_estimate'', Function ''tonic_estimate''),
      (''mode_estimate'', Function ''mode_estimate''),
      (''slice'', Function ''slice'')]"

definition global_name :: "string \<Rightarrow> binding option" where
  "global_name x = map_of (rev module_bindings) x"

subsection \<open>Library functions the module calls\<close>

text \<open>
  \<open>scipy.spatial.distance.minkowski(u, v, p)\<close>, of which \<open>euclidean\<close> is the case
  \<open>p = 2\<close>: the \<open>p\<close>-th root of the sum of \<open>|u[i] - v[i]| ^ p\<close>, on vectors of one length.
\<close>

definition scipy_minkowski :: "real list \<Rightarrow> real list \<Rightarrow> nat \<Rightarrow> pyerr + real" where
  "scipy_minkowski u v p =
     (if length u \<noteq> length v then Inl ValueError
      else Inr (root p (\<Sum>(a, b) \<leftarrow> zip u v. \<bar>a - b\<bar> ^ p)))"

text \<open>
  An elementwise numpy operation on two arrays: the lengths agree, or an array of
  length one is repeated along the other.
\<close>

definition broadcast ::
  "(real \<Rightarrow> real \<Rightarrow> real) \<Rightarrow> real list \<Rightarrow> real list \<Rightarrow> pyerr + real list" where
  "broadcast f u v =
     (if length u = length v then Inr (map2 f u v)
      else if length u = 1 then Inr (map (f (hd u)) v)
      else if length v = 1 then Inr (map (\<lambda>a. f a (hd v)) u)
      else Inl ValueError)"

text \<open>
  \<open>np.correlate(a, v)\<close> in its default mode \<open>'valid'\<close>: the sums over the positions
  where the shorter array lies inside the longer one.
\<close>

definition correlate_valid :: "real list \<Rightarrow> real list \<Rightarrow> real list" where
  "correlate_valid a v =
     map (\<lambda>k. \<Sum>i \<leftarrow> [0 ..< length v]. a ! (k + i) * v ! i)
       [0 ..< Suc (length a - length v)]"

definition np_correlate :: "real list \<Rightarrow> real list \<Rightarrow> pyerr + real list" where
  "np_correlate a v =
     (if a = [] \<or> v = [] then Inl ValueError
      else if length a < length v then Inr (rev (correlate_valid v a))
      else Inr (correlate_valid a v))"

subsection \<open>distance\<close>

text \<open>
  An argument of \<open>distance\<close> is an array or a PitchDistribution instance (the callers
  pass both kinds; one call never mixes them). On two instances \<open>vals_1 * vals_2\<close> raises
  TypeError, \<open>len(vals_1)\<close> AttributeError and \<open>np.correlate\<close> ValueError. Its result is
  a float, an array (the method \<open>corr\<close>) or one of the floats \<open>inf\<close> and \<open>nan\<close>, which the
  model does not tell apart.
\<close>

datatype arg = Array "real list" | Instance nat

datatype result = Float real | NonFinite | Vector "real list"

text \<open>
  \<open>distance.minkowski(vals_1, vals_2, p)\<close> inside the body of \<open>distance\<close>: the attribute
  is looked up on whatever the global name \<open>distance\<close> is bound to, and a function object
  has no such attribute.
\<close>

definition distance_attribute_call :: "arg \<Rightarrow> arg \<Rightarrow> nat \<Rightarrow> pyerr + result" where
  "distance_attribute_call vals_1 vals_2 p =
     (case global_name ''distance'' of
        None \<Rightarrow> Inl NameError
      | Some (Function f) \<Rightarrow> Inl AttributeError
      | Some (Module m) \<Rightarrow>
          if m \<noteq> ''scipy.spatial.distance'' then Inl AttributeError
          else (case (vals_1, vals_2) of
                  (Array u, Array v) \<Rightarrow> and_then (scipy_minkowski u v p) (\<lambda>d. Inr (Float d))
                | _ \<Rightarrow> Inl TypeError))"

definition distance :: "arg \<Rightarrow> arg \<Rightarrow> string \<Rightarrow> pyerr + result" where
  "distance vals_1 vals_2 method =
     (if method = ''euclidean'' then distance_attribute_call vals_1 vals_2 2
      else if method = ''manhattan'' then distance_attribute_call vals_1 vals_2 1
      else if method = ''l3'' then distance_attribute_call vals_1 vals_2 3
      else if method = ''bhat'' then
        (case (vals_1, vals_2) of
           (Array u, Array v) \<Rightarrow>
             and_then (broadcast (*) u v) (\<lambda>prod.
               if list_ex (\<lambda>x. x < 0) prod then Inr NonFinite
               else if sum_list (map sqrt prod) \<le> 0 then Inl ValueError
               else Inr (Float (- ln (sum_list (map sqrt prod)))))
         | _ \<Rightarrow> Inl TypeError)
      else if method = ''intersection'' then
        (case vals_1 of
           Instance a \<Rightarrow> Inl AttributeError
         | Array u \<Rightarrow>
             (case vals_2 of
                Instance b \<Rightarrow> Inl TypeError
              | Array v \<Rightarrow>
                  and_then (broadcast min u v) (\<lambda>m.
                    if m = [] then Inl ZeroDivisionError
                    else if sum_list m = 0 then Inr NonFinite
                    else Inr (Float (real (length u) / sum_list m)))))
      else if method = ''corr'' then
        (case (vals_1, vals_2) of
           (Array u, Array v) \<Rightarrow>
             and_then (np_correlate u v) (\<lambda>c. Inr (Vector (map (\<lambda>x. 1 - x) c)))
         | (Instance a, Instance b) \<Rightarrow> Inl ValueError
         | _ \<Rightarrow> Inl TypeError)
      else Inr (Float 0))"

text \<open>
  Storing a result in one cell of a float array: a float is stored, an array of one
  element is stored as its element, any other array is refused.
\<close>

definition as_element :: "result \<Rightarrow> pyerr + result" where
  "as_element r =
     (case r of
        Float x \<Rightarrow> Inr (Float x)
      | NonFinite \<Rightarrow> Inr NonFinite
      | Vector xs \<Rightarrow> (case xs of [x] \<Rightarrow> Inr (Float x) | _ \<Rightarrow> Inl ValueError))"

subsection \<open>generate_distance_matrix\<close>

text \<open>The inner loop over the mode candidates fills one row of the matrix.\<close>

fun distance_row :: "heap \<Rightarrow> real list \<Rightarrow> nat list \<Rightarrow> string \<Rightarrow> pyerr + result list" where
  "distance_row h trial_vals [] method = Inr []"
| "distance_row h trial_vals (cur_mode_dist # rest) method =
     (case distance (Array trial_vals) (Array (vals (h ! cur_mode_dist))) method of
        Inl e \<Rightarrow> Inl e
      | Inr d \<Rightarrow>
          (case as_element d of
             Inl e \<Rightarrow> Inl e
           | Inr cell \<Rightarrow>
               (case distance_row h trial_vals rest method of
                  Inl e \<Rightarrow> Inl e
                | Inr cells \<Rightarrow> Inr (cell # cells))))"

text \<open>The outer loop over the peaks: each tonic candidate shifts \<open>dist\<close> into a new object.\<close>

fun generate_distance_matrix ::
  "heap \<Rightarrow> nat \<Rightarrow> int list \<Rightarrow> nat list \<Rightarrow> string \<Rightarrow> pyerr + heap \<times> result list list" where
  "generate_distance_matrix h dist' [] mode_dists method = Inr (h, [])"
| "generate_distance_matrix h dist' (cur_peak_idx # rest) mode_dists method =
     (case shift h dist' cur_peak_idx of
        Inl e \<Rightarrow> Inl e
      | Inr (h1, trial) \<Rightarrow>
          (case distance_row h1 (vals (h1 ! trial)) mode_dists method of
             Inl e \<Rightarrow> Inl e
           | Inr row \<Rightarrow>
               (case generate_distance_matrix h1 dist' rest mode_dists method of
                  Inl e \<Rightarrow> Inl e
                | Inr (h2, rows) \<Rightarrow> Inr (h2, row # rows))))"

subsection \<open>pd_zero_pad\<close>

text \<open>\<open>set(a) - set(b)\<close>, as the list of its distinct elements.\<close>

definition set_difference :: "real list \<Rightarrow> real list \<Rightarrow> real list" where
  "set_difference a b = remdups (filter (\<lambda>x. x \<notin> set b) a)"

text \<open>
  \<open>len([x for x in diff_bins if x < min(own)])\<close>: the condition, and with it \<open>min(own)\<close>,
  is evaluated once per element of \<open>diff_bins\<close>.
\<close>

definition num_left_missing :: "real list \<Rightarrow> real list \<Rightarrow> pyerr + nat" where
  "num_left_missing diff_bins own =
     (if diff_bins = [] then Inr 0
      else and_then (py_min own) (\<lambda>mn. Inr (length (filter (\<lambda>x. x < mn) diff_bins))))"

definition num_right_missing :: "real list \<Rightarrow> real list \<Rightarrow> pyerr + nat" where
  "num_right_missing diff_bins own =
     (if diff_bins = [] then Inr 0
      else and_then (py_max own) (\<lambda>mx. Inr (length (filter (\<lambda>x. mx < x) diff_bins))))"

text \<open>
  \<open>pd_zero_pad\<close> assigns the \<open>vals\<close> attribute of the two objects it is given and returns
  the same two objects. Its parameter \<open>step_size\<close> is not used.
\<close>

definition pd_zero_pad :: "heap \<Rightarrow> nat \<Rightarrow> nat \<Rightarrow> real \<Rightarrow> pyerr + heap \<times> nat \<times> nat" where
  "pd_zero_pad h pd mode_pd step_size' =
     (let diff_bins = set_difference (bins (h ! mode_pd)) (bins (h ! pd)) in
      and_then (num_left_missing diff_bins (bins (h ! pd))) (\<lambda>left.
      and_then (num_right_missing diff_bins (bins (h ! pd))) (\<lambda>right.
        let h1 = h[pd := (h ! pd)\<lparr>vals := replicate left 0 @ vals (h ! pd) @ replicate right 0\<rparr>];
            diff_bins = set_difference (bins (h1 ! pd)) (bins (h1 ! mode_pd)) in
        and_then (num_left_missing diff_bins (bins (h1 ! mode_pd))) (\<lambda>left.
        and_then (num_right_missing diff_bins (bins (h1 ! mode_pd))) (\<lambda>right.
          Inr (h1[mode_pd := (h1 ! mode_pd)
                    \<lparr>vals := replicate left 0 @ vals (h1 ! mode_pd) @ replicate right 0\<rparr>],
               pd, mode_pd))))))"

subsection \<open>tonic_estimate and mode_estimate\<close>

text \<open>What an estimator returns: a distance vector, or \<open>None\<close> when the body falls through.\<close>

datatype retval = PyNone | DistVector "result list"

text \<open>
  The copy of \<open>dist\<close> both estimators make under the metric \<open>'pD'\<close>; \<open>overlap\<close> is not
  passed on and takes its default.
\<close>

definition copy_of :: "heap \<Rightarrow> nat \<Rightarrow> pyerr + heap \<times> nat" where
  "copy_of h dist' =
     and_then
       (PitchDistribution (bins (h ! dist')) (vals (h ! dist')) (kernel_width (h ! dist'))
          (source (h ! dist')) (ref_freq (h ! dist')) (segmentation (h ! dist')) NoOverlap)
       (\<lambda>obj. Inr (alloc h obj))"

text \<open>\<open>v = np.concatenate((np.zeros(abs(max(peak_idxs))), v, np.zeros(abs(min(peak_idxs)))))\<close>\<close>

definition widen :: "int list \<Rightarrow> real list \<Rightarrow> pyerr + real list" where
  "widen peak_idxs v =
     and_then (py_max peak_idxs) (\<lambda>mx.
     and_then (py_min peak_idxs) (\<lambda>mn.
       Inr (replicate (nat \<bar>mx\<bar>) 0 @ v @ replicate (nat \<bar>mn\<bar>) 0)))"

definition tonic_estimate ::
  "heap \<Rightarrow> nat \<Rightarrow> int list \<Rightarrow> nat \<Rightarrow> string \<Rightarrow> string \<Rightarrow> real \<Rightarrow> pyerr + heap \<times> retval" where
  "tonic_estimate h dist' peak_idxs mode_dist distance_method metric step_size' =
     (if metric = ''pcd'' then
        and_then (generate_distance_matrix h dist' peak_idxs [mode_dist] distance_method)
          (\<lambda>(h1, rows). Inr (h1, DistVector (map (\<lambda>row. row ! 0) rows)))
      else if metric = ''pD'' then
        and_then (copy_of h dist') (\<lambda>(h1, temp).
        and_then (pd_zero_pad h1 temp mode_dist step_size') (\<lambda>(h2, temp, mode_dist).
        and_then (widen peak_idxs (vals (h2 ! temp))) (\<lambda>v.
          let h3 = h2[temp := (h2 ! temp)\<lparr>vals := v\<rparr>] in
          and_then (widen peak_idxs (vals (h3 ! mode_dist))) (\<lambda>v.
            let h4 = h3[mode_dist := (h3 ! mode_dist)\<lparr>vals := v\<rparr>] in
            and_then (generate_distance_matrix h4 temp peak_idxs [mode_dist] distance_method)
              (\<lambda>(h5, rows). Inr (h5, DistVector (map (\<lambda>row. row ! 0) rows)))))))
      else Inr (h, PyNone))"

text \<open>
  The loop of \<open>mode_estimate\<close> under \<open>'pD'\<close>. Line 311 passes the two objects \<open>trial\<close> and
  \<open>mode_trial\<close> to \<open>distance\<close>, not their \<open>vals\<close>.
\<close>

fun mode_estimate_loop ::
  "heap \<Rightarrow> nat \<Rightarrow> nat list \<Rightarrow> string \<Rightarrow> real \<Rightarrow> pyerr + heap \<times> result list" where
  "mode_estimate_loop h dist' [] distance_method step_size' = Inr (h, [])"
| "mode_estimate_loop h dist' (mode_dist # rest) distance_method step_size' =
     (case copy_of h dist' of
        Inl e \<Rightarrow> Inl e
      | Inr (h1, trial) \<Rightarrow>
          (case pd_zero_pad h1 trial mode_dist step_size' of
             Inl e \<Rightarrow> Inl e
           | Inr (h2, trial, mode_trial) \<Rightarrow>
               (case distance (Instance trial) (Instance mode_trial) distance_method of
                  Inl e \<Rightarrow> Inl e
                | Inr d \<Rightarrow>
                    (case as_element d of
                       Inl e \<Rightarrow> Inl e
                     | Inr cell \<Rightarrow>
                         (case mode_estimate_loop h2 dist' rest distance_method step_size' of
                            Inl e \<Rightarrow> Inl e
                          | Inr (h3, cells) \<Rightarrow> Inr (h3, cell # cells))))))"

definition mode_estimate ::
  "heap \<Rightarrow> nat \<Rightarrow> nat list \<Rightarrow> string \<Rightarrow> string \<Rightarrow> real \<Rightarrow> pyerr + heap \<times> retval" where
  "mode_estimate h dist' mode_dists distance_method metric step_size' =
     (if metric = ''pcd'' then
        and_then (generate_distance_matrix h dist' [0] mode_dists distance_method)
          (\<lambda>(h1, rows). Inr (h1, DistVector (rows ! 0)))
      else if metric = ''pD'' then
        and_then (mode_estimate_loop h dist' mode_dists distance_method step_size')
          (\<lambda>(h1, distance_vector). Inr (h1, DistVector distance_vector))
      else Inl UnboundLocalError)"

subsection \<open>generate_pcd\<close>

text \<open>The octave wrapping loop over the indices \<open>k\<close> of \<open>pd.bins\<close>.\<close>

fun octave_wrapping :: "pitch_distribution \<Rightarrow> nat list \<Rightarrow> real list \<Rightarrow> pyerr + real list" where
  "octave_wrapping pd [] pcd_vals = Inr pcd_vals"
| "octave_wrapping pd (k # ks) pcd_vals =
     (let idx = py_int (py_mod (bins pd ! k) 1200 / step_size pd);
          idx = (if idx \<noteq> 160 then idx else 0)
      in case np_index (length pcd_vals) idx of
           Inl e \<Rightarrow> Inl e
         | Inr i \<Rightarrow>
             if length (vals pd) \<le> k then Inl IndexError
             else octave_wrapping pd ks (pcd_vals[i := pcd_vals ! i + vals pd ! k]))"

definition generate_pcd :: "heap \<Rightarrow> nat \<Rightarrow> pyerr + heap \<times> nat" where
  "generate_pcd h pd =
     and_then (arange 0 1200 (step_size (h ! pd))) (\<lambda>pcd_bins.
     and_then (octave_wrapping (h ! pd) [0 ..< length (bins (h ! pd))]
                 (replicate (length pcd_bins) 0)) (\<lambda>pcd_vals.
     and_then (PitchDistribution pcd_bins pcd_vals (kernel_width (h ! pd)) (source (h ! pd))
                 (ref_freq (h ! pd)) (segmentation (h ! pd)) (overlap (h ! pd)))
       (\<lambda>obj. Inr (alloc h obj))))"

subsection \<open>generate_pd: the histogram edges\<close>

text \<open>
  Lines 44 to 55 of \<open>generate_pd\<close>, which build the edges the histogram of line 58 is
  taken over; \<open>np.histogram\<close> counts only the samples between the first and the last edge.
\<close>

definition generate_pd_edges :: "real list \<Rightarrow> real \<Rightarrow> pyerr + real list" where
  "generate_pd_edges cent_track step_size' =
     and_then (py_min cent_track) (\<lambda>mn.
     and_then (py_max cent_track) (\<lambda>mx.
       let min_edge = mn - step_size' / 2;
           max_edge = mx + step_size' / 2
       in and_then (arange (- step_size' / 2) min_edge (- step_size')) (\<lambda>lower.
          and_then (arange (step_size' / 2) max_edge step_size') (\<lambda>upper.
            let pd_edges = rev lower @ upper;
                pd_edges = (if - step_size' / 2 \<in> set pd_edges then pd_edges
                            else (- step_size' / 2) # pd_edges);
                pd_edges = (if step_size' / 2 \<in> set pd_edges then pd_edges
                            else pd_edges @ [step_size' / 2])
            in Inr pd_edges))))"

subsection \<open>slice\<close>

text \<open>\<open>np.where(time_track < c)[0]\<close>: the indices of the samples below \<open>c\<close>, in order.\<close>

definition where_below :: "real list \<Rightarrow> real \<Rightarrow> int list" where
  "where_below time_track c =
     map int (filter (\<lambda>i. time_track ! i < c) [0 ..< length time_track])"

type_synonym chunk_info = "string \<times> int \<times> int"

text \<open>
  The main slicing loop over \<open>k\<close>; its state is \<open>chunks\<close>, \<open>chunk_info\<close> and \<open>last\<close>.
  \<open>time_track[last]\<close> raises IndexError when \<open>last\<close> is the length of the track.
\<close>

fun slice_loop ::
  "real list \<Rightarrow> real list \<Rightarrow> string \<Rightarrow> real \<Rightarrow> real \<Rightarrow> int list
     \<Rightarrow> real list list \<times> chunk_info list \<times> int
     \<Rightarrow> pyerr + real list list \<times> chunk_info list \<times> int" where
  "slice_loop time_track pitch_track pt_source chunk_size overlap' [] state = Inr state"
| "slice_loop time_track pitch_track pt_source chunk_size overlap' (k # ks)
       (chunks, chunk_infos, last') =
     (case py_max (where_below time_track (chunk_size * of_int k)) of
        Inl e \<Rightarrow> Inl e
      | Inr m \<Rightarrow>
          let cur = 1 + m in
          if int (length time_track) \<le> last' then Inl IndexError
          else
            let chunks = chunks @ [slice_between pitch_track last' (cur - 1)];
                chunk_infos = chunk_infos @
                  [(pt_source, py_int (py_round (time_track ! nat last')),
                    py_int (py_round (time_track ! nat (cur - 1))))]
            in
              (case (if 0 < overlap'
                     then and_then
                            (py_max (where_below time_track
                               (chunk_size * of_int k * (1 - overlap'))))
                            (\<lambda>m. Inr (1 + m))
                     else Inr cur) of
                 Inl e \<Rightarrow> Inl e
               | Inr next_last \<Rightarrow>
                   slice_loop time_track pitch_track pt_source chunk_size overlap' ks
                     (chunks, chunk_infos, next_last)))"

text \<open>
  \<open>max(time_track) / chunk_size\<close> is a numpy division: by zero it gives \<open>nan\<close> or \<open>inf\<close>,
  which \<open>int\<close> refuses.
\<close>

definition slice ::
  "real list \<Rightarrow> real list \<Rightarrow> string \<Rightarrow> real \<Rightarrow> real \<Rightarrow> real
     \<Rightarrow> pyerr + real list list \<times> chunk_info list" where
  "slice time_track pitch_track pt_source chunk_size threshold overlap' =
     and_then (py_max time_track) (\<lambda>mx.
       if chunk_size = 0 then (if mx = 0 then Inl ValueError else Inl OverflowError)
       else
         and_then
           (slice_loop time_track pitch_track pt_source chunk_size overlap'
              [1 .. py_int (mx / chunk_size)] ([], [], 0))
           (\<lambda>(chunks, chunk_infos, last').
              if int (length time_track) \<le> last' then Inl IndexError
              else if chunk_size * threshold \<le> mx - time_track ! nat last' then
                Inr (chunks @ [slice_from pitch_track last'],
                     chunk_infos @
                       [(pt_source, py_int (py_round (time_track ! nat last')),
                         py_int (py_round (time_track ! (length time_track - 1))))])
              else if last' = 0 then
                Inr (chunks @ [pitch_track],
                     chunk_infos @
                       [(pt_source, 0,
                         py_int (py_round (time_track ! (length time_track - 1))))])
              else Inr (chunks, chunk_infos)))"

section \<open>Example objects\<close>

text \<open>A pitch-class distribution of three bins at a step of 400 cents.\<close>

definition example_pcd :: pitch_distribution where
  "example_pcd =
     \<lparr>bins = [0, 400, 800], vals = [1, 2, 3], ref_freq = 440, kernel_width = 15 / 2,
      segmentation = SegAll, source = ''rec'', overlap = NoOverlap, step_size = 400\<rparr>"

text \<open>
  A recording \<open>example_pd\<close> on the bins 0 and 7.5 and a mode template \<open>example_mode\<close> on the
  bins -7.5 and 0, both at the default step of 7.5 cents.
\<close>

definition example_pd :: pitch_distribution where
  "example_pd =
     \<lparr>bins = [0, 15 / 2], vals = [1, 2], ref_freq = 440, kernel_width = 15 / 2,
      segmentation = SegAll, source = ''rec'', overlap = NoOverlap, step_size = 15 / 2\<rparr>"

definition example_mode :: pitch_distribution where
  "example_mode =
     \<lparr>bins = [- (15 / 2), 0], vals = [3, 4], ref_freq = 440, kernel_width = 15 / 2,
      segmentation = SegAll, source = ''mode'', overlap = NoOverlap, step_size = 15 / 2\<rparr>"

text \<open>
  A pitch distribution at a step of 6 cents on the 41 bins -240, -234, ..., 0, with the
  value 2 in the bin -240 and 1 in every other bin.
\<close>

definition example_step6 :: pitch_distribution where
  "example_step6 =
     \<lparr>bins = map (\<lambda>i. 6 * real_of_int i) [- 40 .. 0], vals = 2 # replicate 40 1,
      ref_freq = 440, kernel_width = 15 / 2, segmentation = SegAll, source = ''rec'',
      overlap = NoOverlap, step_size = 6\<rparr>"


section \<open>Slices and the circular shift\<close>

lemma rotate_back:
  "j \<le> length xs \<Longrightarrow>
   drop (length xs - j) (drop j xs @ take j xs) @ take (length xs - j) (drop j xs @ take j xs) = xs"
  by simp

lemma slice_index_le: "slice_index n k \<le> n"
  by (auto simp: slice_index_def)

lemma slice_index_neg:
  "slice_index n (- k) = n - slice_index n k \<or>
   (slice_index n k = 0 \<and> slice_index n (- k) = 0) \<or>
   (slice_index n k = n \<and> slice_index n (- k) = 0) \<or>
   (slice_index n k = 0 \<and> slice_index n (- k) = n)"
  by (auto simp: slice_index_def)

text \<open>
  Rotating by \<open>k\<close> and then by \<open>- k\<close> gives the sequence back, for every integer \<open>k\<close>:
  a bound beyond the length is clamped, and then neither rotation moves anything.
\<close>

lemma rotate_slices_inverse:
  "slice_from (slice_from xs k @ slice_upto xs k) (- k)
     @ slice_upto (slice_from xs k @ slice_upto xs k) (- k) = xs"
proof -
  define j where "j = slice_index (length xs) k"
  define j' where "j' = slice_index (length xs) (- k)"
  define ys where "ys = drop j xs @ take j xs"
  have j: "j \<le> length xs" by (simp add: j_def slice_index_le)
  have len: "length ys = length xs" using j by (simp add: ys_def)
  have goal: "slice_from (slice_from xs k @ slice_upto xs k) (- k)
     @ slice_upto (slice_from xs k @ slice_upto xs k) (- k) = drop j' ys @ take j' ys"
    by (simp add: slice_from_def slice_upto_def j_def[symmetric] ys_def[symmetric] len j'_def)
  from slice_index_neg [of "length xs" k]
  have "drop j' ys @ take j' ys = xs"
    unfolding j_def[symmetric] j'_def[symmetric]
  proof (elim disjE conjE)
    assume "j' = length xs - j"
    then show ?thesis using rotate_back [OF j] by (simp add: ys_def)
  next
    assume "j = 0" "j' = 0"
    then show ?thesis by (simp add: ys_def)
  next
    assume "j = length xs" "j' = 0"
    then show ?thesis by (simp add: ys_def)
  next
    assume "j = 0" "j' = length xs"
    then show ?thesis by (simp add: ys_def)
  qed
  with goal show ?thesis by simp
qed

section \<open>PitchDistribution.shift\<close>

lemma init_rebuilds:
  "constructed s \<Longrightarrow>
   PitchDistribution (bins s) v (kernel_width s) (source s) (ref_freq s) (segmentation s)
     (overlap s) = Inr (s\<lparr>vals := v\<rparr>)"
  by (cases s) (simp add: constructed_def PitchDistribution_def Let_def)

lemma is_pcd_returns: "bins s \<noteq> [] \<Longrightarrow> \<exists>b. is_pcd s = Inr b"
  by (cases "bins s") (auto simp: is_pcd_def py_max_def py_min_def and_then_def)

lemma is_pcd_vals_update: "is_pcd (s\<lparr>vals := v\<rparr>) = is_pcd s"
  by (simp add: is_pcd_def cong: if_cong)

lemma constructed_vals_update: "constructed (s\<lparr>vals := v\<rparr>) = constructed s"
  by (simp add: constructed_def)

lemma shift_value:
  assumes "constructed (h ! self)" and "is_pcd (h ! self) = Inr b"
  shows "shift h self k =
     Inr (h @ [(h ! self)\<lparr>vals :=
            (if k = 0 then vals (h ! self)
             else if b then slice_from (vals (h ! self)) k @ slice_upto (vals (h ! self)) k
             else if 0 < k then slice_from (vals (h ! self)) k @ replicate (nat k) 0
             else replicate (nat \<bar>k\<bar>) 0 @ slice_upto (vals (h ! self)) k)\<rparr>], length h)"
  by (simp add: shift_def Let_def assms(2) and_then_def init_rebuilds [OF assms(1)] alloc_def)

lemma shift_allocates:
  assumes "constructed (h ! self)"
  shows "\<exists>v. shift h self k = Inr (h @ [(h ! self)\<lparr>vals := v\<rparr>], length h)"
proof -
  from assms have "bins (h ! self) \<noteq> []" by (auto simp: constructed_def)
  then obtain b where b: "is_pcd (h ! self) = Inr b" using is_pcd_returns by blast
  show ?thesis unfolding shift_value [OF assms b] by blast
qed

lemma shift_pcd:
  assumes "constructed (h ! self)" "is_pcd (h ! self) = Inr True"
  shows "shift h self k =
     Inr (h @ [(h ! self)\<lparr>vals := (if k = 0 then vals (h ! self)
          else slice_from (vals (h ! self)) k @ slice_upto (vals (h ! self)) k)\<rparr>], length h)"
  unfolding shift_value [OF assms] by simp

text \<open>
  Claim C10. For every constructed pitch distribution \<open>h ! self\<close> of the store and every
  integer \<open>k\<close>, \<open>shift\<close> returns: its result is a new object (the address \<open>length h\<close>,
  which no object had), every object that was in the store is as it was, the receiver
  among them, and the new object is the receiver with another \<open>vals\<close>: its \<open>bins\<close>,
  \<open>step_size\<close>, \<open>kernel_width\<close>, \<open>ref_freq\<close>, \<open>segmentation\<close>, \<open>source\<close> and \<open>overlap\<close>
  are the receiver's.
\<close>

theorem shift_frame:
  assumes "self < length h" and "constructed (h ! self)"
  shows "\<exists>h' r v. shift h self k = Inr (h', r) \<and> r = length h \<and> r \<noteq> self \<and>
           length h' = Suc (length h) \<and> (\<forall>a < length h. h' ! a = h ! a) \<and>
           h' ! r = (h ! self)\<lparr>vals := v\<rparr> \<and>
           bins (h' ! r) = bins (h ! self) \<and> step_size (h' ! r) = step_size (h ! self) \<and>
           kernel_width (h' ! r) = kernel_width (h ! self) \<and>
           ref_freq (h' ! r) = ref_freq (h ! self) \<and>
           segmentation (h' ! r) = segmentation (h ! self) \<and>
           source (h' ! r) = source (h ! self) \<and> overlap (h' ! r) = overlap (h ! self)"
proof -
  from shift_allocates [OF assms(2), of k] obtain v where
    "shift h self k = Inr (h @ [(h ! self)\<lparr>vals := v\<rparr>], length h)" ..
  with assms(1) show ?thesis by (auto simp: nth_append)
qed

text \<open>The theorem at the store that holds \<open>example_pcd\<close> alone, shifted by one bin.\<close>

theorem shift_frame_witness:
  "(0::nat) < length [example_pcd] \<and> constructed ([example_pcd] ! 0) \<and>
   (\<exists>h' r v. shift [example_pcd] 0 1 = Inr (h', r) \<and> r = length [example_pcd] \<and> r \<noteq> 0 \<and>
      length h' = Suc (length [example_pcd]) \<and>
      (\<forall>a < length [example_pcd]. h' ! a = [example_pcd] ! a) \<and>
      h' ! r = ([example_pcd] ! 0)\<lparr>vals := v\<rparr> \<and>
      bins (h' ! r) = bins ([example_pcd] ! 0) \<and>
      step_size (h' ! r) = step_size ([example_pcd] ! 0) \<and>
      kernel_width (h' ! r) = kernel_width ([example_pcd] ! 0) \<and>
      ref_freq (h' ! r) = ref_freq ([example_pcd] ! 0) \<and>
      segmentation (h' ! r) = segmentation ([example_pcd] ! 0) \<and>
      source (h' ! r) = source ([example_pcd] ! 0) \<and>
      overlap (h' ! r) = overlap ([example_pcd] ! 0))"
proof -
  have a: "(0::nat) < length [example_pcd]" by simp
  have c: "constructed ([example_pcd] ! 0)"
    by (simp add: constructed_def example_pcd_def py_round_def)
  from a c shift_frame [OF a c, of 1] show ?thesis by blast
qed

text \<open>
  Claim C9. For every constructed pitch-class distribution (\<open>is_pcd\<close> returns \<open>True\<close>)
  and every integer \<open>k\<close>, zero, of the size of the distribution or beyond it included,
  shifting by \<open>k\<close> and then shifting the result by \<open>- k\<close> both return, and the \<open>vals\<close> of
  the second result are the \<open>vals\<close> of the distribution.
\<close>

theorem shift_round_trip:
  assumes "self < length h" and "constructed (h ! self)" and "is_pcd (h ! self) = Inr True"
  shows "\<exists>h1 r1 h2 r2. shift h self k = Inr (h1, r1) \<and> shift h1 r1 (- k) = Inr (h2, r2) \<and>
           vals (h2 ! r2) = vals (h ! self)"
proof -
  let ?s = "h ! self"
  let ?v = "if k = 0 then vals ?s else slice_from (vals ?s) k @ slice_upto (vals ?s) k"
  let ?h1 = "h @ [?s\<lparr>vals := ?v\<rparr>]"
  have s1: "shift h self k = Inr (?h1, length h)"
    by (rule shift_pcd [OF assms(2,3)])
  have c1: "constructed (?h1 ! length h)"
    using assms(2) by (simp add: constructed_vals_update)
  have p1: "is_pcd (?h1 ! length h) = Inr True"
    using assms(3) by (simp add: is_pcd_vals_update)
  have "\<exists>h2. shift ?h1 (length h) (- k) = Inr (h2 @ [?s\<lparr>vals := vals ?s\<rparr>], length h2)"
    unfolding shift_pcd [OF c1 p1, of "- k"]
    by (simp add: rotate_slices_inverse)
  then obtain h2 where
    "shift ?h1 (length h) (- k) = Inr (h2 @ [?s\<lparr>vals := vals ?s\<rparr>], length h2)" ..
  with s1 show ?thesis by simp
qed

text \<open>The theorem at \<open>example_pcd\<close> and a shift of five bins, more than its three.\<close>

theorem shift_round_trip_witness:
  "(0::nat) < length [example_pcd] \<and> constructed ([example_pcd] ! 0) \<and>
   is_pcd ([example_pcd] ! 0) = Inr True \<and>
   (\<exists>h1 r1 h2 r2. shift [example_pcd] 0 5 = Inr (h1, r1) \<and> shift h1 r1 (- 5) = Inr (h2, r2) \<and>
      vals (h2 ! r2) = vals ([example_pcd] ! 0))"
proof -
  have a: "(0::nat) < length [example_pcd]" by simp
  have c: "constructed ([example_pcd] ! 0)"
    by (simp add: constructed_def example_pcd_def py_round_def)
  have p: "is_pcd ([example_pcd] ! 0) = Inr True"
    by (simp add: is_pcd_def example_pcd_def py_max_def py_min_def and_then_def)
  from a c p shift_round_trip [OF a c p, of 5] show ?thesis by blast
qed

section \<open>distance\<close>

text \<open>
  The \<open>def distance\<close> of line 160 rebinds the name that line 4 imported, so the three
  Minkowski methods find a function where they expect the scipy module.
\<close>

lemma distance_minkowski_methods_raise:
  "method = ''euclidean'' \<or> method = ''manhattan'' \<or> method = ''l3'' \<Longrightarrow>
   distance vals_1 vals_2 method = Inl AttributeError"
  by (auto simp: distance_def distance_attribute_call_def global_name_def module_bindings_def)

text \<open>
  Claim C1 says that \<open>distance(v1, v2, 'euclidean')\<close> returns the Euclidean distance, 0
  for \<open>v1 = v2\<close>, and raises nothing. On \<open>v1 = v2 = [1, 2]\<close> the code raises
  AttributeError.
\<close>

theorem distance_euclidean_raises:
  "distance (Array [1, 2]) (Array [1, 2]) ''euclidean'' = Inl AttributeError"
  by (simp add: distance_def distance_attribute_call_def global_name_def module_bindings_def)

text \<open>
  Claim C8. For every pair of arguments, of equal length or not, and every method outside
  the six names the function tests for, \<open>distance\<close> returns 0 and raises nothing.
\<close>

theorem distance_unrecognized:
  "method \<notin> set [''euclidean'', ''manhattan'', ''l3'', ''bhat'', ''intersection'', ''corr'']
   \<Longrightarrow> distance vals_1 vals_2 method = Inr (Float 0)"
  by (simp add: distance_def)

text \<open>The theorem at the method \<open>'cosine'\<close> and two arrays of different lengths.\<close>

theorem distance_unrecognized_witness:
  "''cosine'' \<notin> set [''euclidean'', ''manhattan'', ''l3'', ''bhat'', ''intersection'', ''corr'']
   \<and> distance (Array [1, 2]) (Array [1, 2, 3]) ''cosine'' = Inr (Float 0)"
proof -
  have m: "''cosine'' \<notin> set [''euclidean'', ''manhattan'', ''l3'', ''bhat'', ''intersection'', ''corr'']"
    by simp
  from m distance_unrecognized [OF m] show ?thesis by blast
qed

section \<open>pd_zero_pad\<close>





















section \<open>The estimators\<close>

lemmas estimator_defs =
  tonic_estimate_def mode_estimate_def copy_of_def PitchDistribution_def alloc_def
  pd_zero_pad_def set_difference_def num_left_missing_def num_right_missing_def
  py_min_def py_max_def widen_def py_round_def and_then_def Let_def

text \<open>
  Under the metric \<open>'pD'\<close> the loop of \<open>mode_estimate\<close> hands \<open>distance\<close> two
  objects. Each of the six methods raises on them, so with a template to compare against
  and a method the function knows, \<open>mode_estimate\<close> never returns a vector.
\<close>

lemma distance_instances_raise:
  assumes "method \<in> set [''euclidean'', ''manhattan'', ''l3'', ''bhat'', ''intersection'', ''corr'']"
  shows "\<exists>e. distance (Instance a) (Instance b) method = Inl e"
  using assms
  by (auto simp: distance_def distance_attribute_call_def global_name_def module_bindings_def)

lemma mode_estimate_pD_never_returns:
  assumes "method \<in> set [''euclidean'', ''manhattan'', ''l3'', ''bhat'', ''intersection'', ''corr'']"
  shows "\<exists>e. mode_estimate h dist' (mode_dist # rest) method ''pD'' s = Inl e"
proof (cases "copy_of h dist'")
  case (Inl e)
  then show ?thesis by (simp add: mode_estimate_def and_then_def)
next
  case (Inr p)
  obtain h1 trial where p: "p = (h1, trial)" by (cases p)
  show ?thesis
  proof (cases "pd_zero_pad h1 trial mode_dist s")
    case (Inl e)
    with Inr p show ?thesis by (simp add: mode_estimate_def and_then_def)
  next
    case padded: (Inr q)
    obtain h2 trial' mode_trial where q: "q = (h2, trial', mode_trial)" by (cases q)
    from distance_instances_raise [OF assms, of trial' mode_trial]
    obtain e where "distance (Instance trial') (Instance mode_trial) method = Inl e" ..
    with Inr p padded q show ?thesis by (simp add: mode_estimate_def and_then_def)
  qed
qed

text \<open>
  Claim C4 says that under the metric \<open>'pD'\<close> the entry of \<open>mode_estimate\<close> for a
  template is the distance of the two \<open>vals\<close> that \<open>pd_zero_pad\<close> leaves in the copy of
  \<open>dist\<close> and in the template. For \<open>example_pd\<close>, the one template \<open>example_mode\<close> and the
  method \<open>'bhat'\<close> the code raises TypeError, where the padded \<open>vals\<close> are \<open>[0, 1, 2]\<close> and
  \<open>[3, 4, 0]\<close> and their distance is \<open>- ln 2\<close>.
\<close>

theorem mode_estimate_pD_raises:
  "mode_estimate [example_pd, example_mode] 0 [1] ''bhat'' ''pD'' (15 / 2) = Inl TypeError \<and>
   pd_zero_pad [example_pd, example_mode, example_pd] 2 1 (15 / 2) =
     Inr ([example_pd, example_mode\<lparr>vals := [3, 4, 0]\<rparr>, example_pd\<lparr>vals := [0, 1, 2]\<rparr>], 2, 1) \<and>
   distance (Array [0, 1, 2]) (Array [3, 4, 0]) ''bhat'' = Inr (Float (- ln 2))"
  by (simp add: estimator_defs example_pd_def example_mode_def distance_def broadcast_def)

text \<open>
  Claim C5 says that both estimators, under both metrics, return an empty distance vector
  and raise nothing when the candidate set is empty. For \<open>example_pd\<close>, the mode
  \<open>example_mode\<close> and no peaks, \<open>tonic_estimate\<close> under the metric \<open>'pD'\<close> raises
  ValueError: line 269 takes \<open>max(peak_idxs)\<close> of the empty list.
\<close>

theorem tonic_estimate_pD_no_peaks:
  "tonic_estimate [example_pd, example_mode] 0 [] 1 ''euclidean'' ''pD'' (15 / 2) = Inl ValueError"
  by (simp add: estimator_defs example_pd_def example_mode_def)

text \<open>
  The three other paths do return the empty vector. For a constructed \<open>dist\<close>, any
  distance method and an empty candidate set, \<open>tonic_estimate\<close> under \<open>'pcd'\<close> and
  \<open>mode_estimate\<close> under \<open>'pcd'\<close> and under \<open>'pD'\<close> return an empty distance vector and
  raise nothing; \<open>mode_estimate\<close> under \<open>'pcd'\<close> leaves behind the unshifted copy of
  \<open>dist\<close> it made.
\<close>

lemma empty_candidates:
  assumes "dist' < length h" and "constructed (h ! dist')"
  shows "tonic_estimate h dist' [] mode_dist method ''pcd'' s = Inr (h, DistVector []) \<and>
         mode_estimate h dist' [] method ''pcd'' s = Inr (h @ [h ! dist'], DistVector []) \<and>
         mode_estimate h dist' [] method ''pD'' s = Inr (h, DistVector [])"
proof -
  have "shift h dist' 0 = Inr (h @ [h ! dist'], length h)"
    using init_rebuilds [OF assms(2), of "vals (h ! dist')"]
    by (simp add: shift_def and_then_def alloc_def)
  then show ?thesis
    by (simp add: tonic_estimate_def mode_estimate_def and_then_def)
qed

text \<open>The three paths at \<open>example_pd\<close>, with \<open>example_mode\<close> as the mode.\<close>

lemma empty_candidates_example:
  "(0::nat) < length [example_pd, example_mode] \<and>
   constructed ([example_pd, example_mode] ! 0) \<and>
   tonic_estimate [example_pd, example_mode] 0 [] 1 ''euclidean'' ''pcd'' (15 / 2) =
     Inr ([example_pd, example_mode], DistVector []) \<and>
   mode_estimate [example_pd, example_mode] 0 [] ''euclidean'' ''pcd'' (15 / 2) =
     Inr ([example_pd, example_mode] @ [[example_pd, example_mode] ! 0], DistVector []) \<and>
   mode_estimate [example_pd, example_mode] 0 [] ''euclidean'' ''pD'' (15 / 2) =
     Inr ([example_pd, example_mode], DistVector [])"
proof -
  have a: "(0::nat) < length [example_pd, example_mode]" by simp
  have c: "constructed ([example_pd, example_mode] ! 0)"
    by (simp add: constructed_def example_pd_def py_round_def)
  from a c empty_candidates [OF a c, of 1 "''euclidean''" "15 / 2"] show ?thesis by blast
qed

section \<open>generate_pcd\<close>

text \<open>
  Claim C2 says that \<open>generate_pcd\<close> sends the index that equals the number of bins,
  \<open>1200 / step_size\<close>, to 0 and adds every other source value at its own index. The code
  tests for the index 160, the number of bins at the step 7.5. On \<open>example_step6\<close>, with
  200 bins, the source bin -240 has the index 160: its value 2 is added to bin 0, which
  ends with 3, and bin 160 stays 0.
\<close>

theorem generate_pcd_step6:
  "generate_pcd [example_step6] 0 =
     Inr ([example_step6,
           \<lparr>bins = map (\<lambda>i. 0 + real i * 6) [0 ..< 200],
            vals = 3 # replicate 160 0 @ replicate 39 1,
            ref_freq = 440, kernel_width = 15 / 2, segmentation = SegAll, source = ''rec'',
            overlap = NoOverlap, step_size = 6\<rparr>], 1)"
  by code_simp

section \<open>generate_pd\<close>

text \<open>
  Claim C6 says that the edges cover the interval from \<open>min(cent_track) - step_size / 2\<close>
  to \<open>max(cent_track) + step_size / 2\<close>, so that every sample lies between the first and
  the last edge. For the samples -7, 0 and 7 and the step 10 the edges are -5 and 5: the
  interval is from -12 to 12, and the samples -7 and 7 lie outside the edges.
\<close>

theorem generate_pd_edges_miss_samples:
  "generate_pd_edges [- 7, 0, 7] 10 = Inr [- 5, 5]"
  by (simp add: generate_pd_edges_def py_min_def py_max_def and_then_def arange_def Let_def)

section \<open>slice\<close>

text \<open>
  Claim C7 says that a chunk of the main loop runs up to and including the last sample
  below the chunk boundary. For the time stamps 0, 1, 2, 3, the pitches 10, 11, 12, 13
  and a chunk size of 2, the last sample below the boundary 2 is the sample 1, with pitch
  11: the chunk of the loop is \<open>[10]\<close>, the next chunk starts at the sample 2, and the
  pitch 11 is in no chunk.
\<close>

theorem slice_drops_boundary_sample:
  "slice [0, 1, 2, 3] [10, 11, 12, 13] ''rec'' 2 (1 / 2) 0 =
     Inr ([[10], [12, 13]], [(''rec'', 0, 1), (''rec'', 2, 3)])"
  by (simp add: slice_def py_max_def and_then_def py_int_def py_round_def where_below_def
      slice_between_def slice_from_def slice_index_def Let_def)

end
